theory Spec2Isabelle
  imports Complex_Main "HOL-Library.Log_Nat"
begin

section \<open>Host values: numbers, strings, object lookup\<close>

text \<open>
  A host number is an IEEE 754 binary64 value. The finite ones are rationals, so a number
  is modelled as a rational or one of the three special values. Every finite double is a
  \<open>Finite q\<close>; the results below hold for every \<open>q\<close>, hence for every double. The
  two zeros are identified: no operation of the sources (comparison, \<open>Math.abs\<close>,
  \<open>Number.isInteger\<close>) tells them apart.
\<close>

datatype number = Finite rat | PosInfinity | NegInfinity | NaN

text \<open>The relational operators on numbers: every comparison with \<open>NaN\<close> is false.\<close>

fun num_lt :: "number \<Rightarrow> number \<Rightarrow> bool" where
  "num_lt NaN y = False"
| "num_lt x NaN = False"
| "num_lt (Finite a) (Finite b) = (a < b)"
| "num_lt x NegInfinity = False"
| "num_lt NegInfinity y = True"
| "num_lt PosInfinity y = False"
| "num_lt x PosInfinity = True"

definition num_gt :: "number \<Rightarrow> number \<Rightarrow> bool" where
  "num_gt x y = num_lt y x"

definition num_le :: "number \<Rightarrow> number \<Rightarrow> bool" where
  "num_le x y = (x \<noteq> NaN \<and> y \<noteq> NaN \<and> \<not> num_lt y x)"

definition num_ge :: "number \<Rightarrow> number \<Rightarrow> bool" where
  "num_ge x y = num_le y x"

text \<open>\<open>Math.abs\<close> and \<open>Number.isInteger\<close>.\<close>

fun Math_abs :: "number \<Rightarrow> number" where
  "Math_abs (Finite q) = Finite \<bar>q\<bar>"
| "Math_abs PosInfinity = PosInfinity"
| "Math_abs NegInfinity = PosInfinity"
| "Math_abs NaN = NaN"

fun Number_isInteger :: "number \<Rightarrow> bool" where
  "Number_isInteger (Finite q) = (of_int \<lfloor>q\<rfloor> = q)"
| "Number_isInteger PosInfinity = False"
| "Number_isInteger NegInfinity = False"
| "Number_isInteger NaN = False"

subsection \<open>Rounding a decimal to the nearest double\<close>

text \<open>
  A decimal literal of the source text (\<open>3.4028235e38\<close>) and the result of
  \<open>parseFloat\<close> denote the double nearest to the decimal, ties to the even
  significand: 53 significant bits, least exponent \<open>-1074\<close>, overflow to infinity
  from \<open>2 ^ 1024\<close>.
\<close>

definition pow2 :: "int \<Rightarrow> rat" where
  "pow2 p = (if 0 \<le> p then 2 ^ nat p else 1 / 2 ^ nat (- p))"

definition floor_log2 :: "rat \<Rightarrow> int" where
  "floor_log2 q = (let (a, b) = quotient_of q; k = bitlen a - bitlen b
                   in if of_int a < of_int b * pow2 k then k - 1 else k)"

definition round_half_even :: "rat \<Rightarrow> int" where
  "round_half_even q =
     (let f = \<lfloor>q\<rfloor>; r = q - of_int f
      in if r < 1 / 2 then f else if 1 / 2 < r then f + 1 else if even f then f else f + 1)"

definition round_double :: "rat \<Rightarrow> number" where
  "round_double q =
     (if q = 0 then Finite 0
      else let a = \<bar>q\<bar>;
               e = floor_log2 a;
               p = max (e - 52) (- 1074);
               m = round_half_even (a / pow2 p);
               r = of_int m * pow2 p
           in if 2 ^ 1024 \<le> r then (if q < 0 then NegInfinity else PosInfinity)
              else Finite (if q < 0 then - r else r))"

text \<open>The decimal literal \<open>m\<close>e\<open>k\<close> of the source text, as the double it denotes.\<close>

definition double_literal :: "int \<Rightarrow> int \<Rightarrow> number" where
  "double_literal m k =
     round_double (if 0 \<le> k then of_int m * 10 ^ nat k else of_int m / 10 ^ nat (- k))"

definition MIN_SAFE_INTEGER :: number where
  "MIN_SAFE_INTEGER = Finite (- (2 ^ 53 - 1))"

definition MAX_SAFE_INTEGER :: number where
  "MAX_SAFE_INTEGER = Finite (2 ^ 53 - 1)"

subsection \<open>Errors\<close>

text \<open>
  A thrown error carries its message, a template literal. The message is kept as the
  list of the template's parts, so that the text a number is printed as need not be
  modelled.
\<close>

datatype piece = Lit string | Num number | Text string | Count nat

datatype error = TypeError "piece list" | RangeError "piece list"

subsection \<open>Object literals as lookup tables\<close>

text \<open>
  The tables of the sources are object literals. Reading \<open>table[key]\<close> and testing
  \<open>key in table\<close> follow the prototype chain, so besides the literal's own keys they
  find the members every object inherits from \<open>Object.prototype\<close>. The list
  below is that of ECMA-262 with its Annex B; a host may lack the Annex B names, and
  the results that exclude inherited names then exclude a few names more than needed.
\<close>

definition Object_prototype_keys :: "string list" where
  "Object_prototype_keys =
     [''constructor'', ''hasOwnProperty'', ''isPrototypeOf'', ''propertyIsEnumerable'',
      ''toLocaleString'', ''toString'', ''valueOf'', ''__proto__'',
      ''__defineGetter__'', ''__defineSetter__'', ''__lookupGetter__'', ''__lookupSetter__'']"

datatype 'a property = Own 'a | Inherited string | Undefined

definition get_property :: "(string \<times> 'a) list \<Rightarrow> string \<Rightarrow> 'a property" where
  "get_property obj key =
     (case map_of obj key of
        Some v \<Rightarrow> Own v
      | None \<Rightarrow> if key \<in> set Object_prototype_keys then Inherited key else Undefined)"

definition has_property :: "(string \<times> 'a) list \<Rightarrow> string \<Rightarrow> bool" where
  "has_property obj key = (key \<in> fst ` set obj \<or> key \<in> set Object_prototype_keys)"

text \<open>\<open>Array.prototype.join\<close> on an array of strings.\<close>

fun join :: "string \<Rightarrow> string list \<Rightarrow> string" where
  "join sep [] = []"
| "join sep [x] = x"
| "join sep (x # y # ys) = x @ sep @ join sep (y # ys)"

section \<open>Types.ts: the bounded value constructors\<close>

definition int_ctor :: "number \<Rightarrow> error + number" where
  "int_ctor v =
     (if \<not> Number_isInteger v
      then Inl (TypeError [Lit ''int requires an integer value, got '', Num v])
      else if num_lt v (Finite (- 2147483648)) \<or> num_gt v (Finite 2147483647)
      then Inl (RangeError [Lit ''int overflow: '', Num v,
                            Lit '' is out of range [-2147483648, 2147483647]''])
      else Inr v)"

definition short_ctor :: "number \<Rightarrow> error + number" where
  "short_ctor v =
     (if \<not> Number_isInteger v
      then Inl (TypeError [Lit ''short requires an integer value, got '', Num v])
      else if num_lt v (Finite (- 32768)) \<or> num_gt v (Finite 32767)
      then Inl (RangeError [Lit ''short overflow: '', Num v,
                            Lit '' is out of range [-32768, 32767]''])
      else Inr v)"

definition long_ctor :: "number \<Rightarrow> error + number" where
  "long_ctor v =
     (if \<not> Number_isInteger v
      then Inl (TypeError [Lit ''long requires an integer value, got '', Num v])
      else if num_lt v MIN_SAFE_INTEGER \<or> num_gt v MAX_SAFE_INTEGER
      then Inl (RangeError [Lit ''long overflow: '', Num v,
                            Lit '' is out of safe integer range''])
      else Inr v)"

definition float_ctor :: "number \<Rightarrow> error + number" where
  "float_ctor v =
     (let absValue = Math_abs v
      in if num_gt absValue (double_literal 34028235 31)
         then Inl (RangeError [Lit ''float overflow: '', Num v,
                               Lit '' exceeds maximum float value''])
         else if num_gt absValue (Finite 0) \<and> num_lt absValue (double_literal 1175494 (- 44))
         then Inl (RangeError [Lit ''float underflow: '', Num v,
                               Lit '' is below minimum float value''])
         else Inr v)"

definition double_ctor :: "number \<Rightarrow> error + number" where
  "double_ctor v = Inr v"

definition bool_ctor :: "bool \<Rightarrow> error + bool" where
  "bool_ctor v = Inr v"

text \<open>
  A host string is the list of its code units, and \<open>length\<close> counts them. The
  model's characters are the code units below 256.
\<close>

definition char_ctor :: "string \<Rightarrow> error + string" where
  "char_ctor v =
     (if length v \<noteq> 1
      then Inl (TypeError [Lit ''char requires exactly one character, got \"'', Text v,
                           Lit ''\" (length: '', Count (length v), Lit '')''])
      else Inr v)"

section \<open>Types.ts: metadata table, classification, function wrapper\<close>

record TypeMetadata =
  md_name :: string
  cppType :: string
  md_size :: int
  md_min :: "number option"
  md_max :: "number option"

definition TYPE_METADATA :: "(string \<times> TypeMetadata) list" where
  "TYPE_METADATA =
     [(''int'', \<lparr>md_name = ''int'', cppType = ''int32_t'', md_size = 4,
                md_min = Some (Finite (- 2147483648)), md_max = Some (Finite 2147483647)\<rparr>),
      (''short'', \<lparr>md_name = ''short'', cppType = ''int16_t'', md_size = 2,
                  md_min = Some (Finite (- 32768)), md_max = Some (Finite 32767)\<rparr>),
      (''long'', \<lparr>md_name = ''long'', cppType = ''int64_t'', md_size = 8,
                 md_min = Some MIN_SAFE_INTEGER, md_max = Some MAX_SAFE_INTEGER\<rparr>),
      (''float'', \<lparr>md_name = ''float'', cppType = ''float'', md_size = 4,
                  md_min = None, md_max = None\<rparr>),
      (''double'', \<lparr>md_name = ''double'', cppType = ''double'', md_size = 8,
                   md_min = None, md_max = None\<rparr>),
      (''bool'', \<lparr>md_name = ''bool'', cppType = ''bool'', md_size = 1,
                 md_min = None, md_max = None\<rparr>),
      (''char'', \<lparr>md_name = ''char'', cppType = ''char'', md_size = 1,
                 md_min = None, md_max = None\<rparr>),
      (''string'', \<lparr>md_name = ''string'', cppType = ''std::string'', md_size = - 1,
                   md_min = None, md_max = None\<rparr>),
      (''void'', \<lparr>md_name = ''void'', cppType = ''void'', md_size = 0,
                 md_min = None, md_max = None\<rparr>)]"

text \<open>
  \<open>TYPE_METADATA[typeName]?.cppType || 'auto'\<close>: an inherited member has no
  \<open>cppType\<close>, and the empty string is falsy.
\<close>

definition getCppType :: "string \<Rightarrow> string" where
  "getCppType typeName =
     (case get_property TYPE_METADATA typeName of
        Own m \<Rightarrow> if cppType m = [] then ''auto'' else cppType m
      | Inherited k \<Rightarrow> ''auto''
      | Undefined \<Rightarrow> ''auto'')"

definition isWithinBounds :: "number \<Rightarrow> string \<Rightarrow> bool" where
  "isWithinBounds v typeName =
     (case get_property TYPE_METADATA typeName of
        Own m \<Rightarrow>
          (case (md_min m, md_max m) of
             (Some lo, Some hi) \<Rightarrow> num_ge v lo \<and> num_le v hi
           | _ \<Rightarrow> True)
      | Inherited k \<Rightarrow> True
      | Undefined \<Rightarrow> True)"

record parameter =
  p_name :: string
  p_type :: string

record 'f VexFunction =
  fn_name :: string
  returnType :: string
  parameters :: "parameter list"
  func :: 'f

definition getCppSignature :: "'f VexFunction \<Rightarrow> string" where
  "getCppSignature this =
     (let params = join '', '' (map (\<lambda>p. getCppType (p_type p) @ '' '' @ p_name p)
                                    (parameters this))
      in getCppType (returnType this) @ '' '' @ fn_name this @ ''('' @ params @ '')'')"

definition isIntegerType :: "string \<Rightarrow> bool" where
  "isIntegerType typeName = (typeName \<in> set [''int'', ''short'', ''long''])"

definition isFloatingType :: "string \<Rightarrow> bool" where
  "isFloatingType typeName = (typeName \<in> set [''float'', ''double''])"

definition isNumericType :: "string \<Rightarrow> bool" where
  "isNumericType typeName = (isIntegerType typeName \<or> isFloatingType typeName)"

definition isPrimitiveType :: "string \<Rightarrow> bool" where
  "isPrimitiveType typeName = has_property TYPE_METADATA typeName"

section \<open>TypeMapper.ts: the mapping engine\<close>

subsection \<open>Syntax nodes\<close>

text \<open>
  The syntax tree comes from the parser. A type annotation is an array type, a tuple
  type, or any other type node, of which the mapper reads only the source text
  (\<open>getText()\<close>). An expression is one of the literal shapes the mapper tests for, a
  call (of which it reads the callee's source text), or anything else.

  Of a numeric literal the mapper reads the node's \<open>text\<close>, and \<open>NumericLiteral\<close>
  carries that string. It is the scanner's token value, not the spelling in the source:
  a plain digit sequence keeps its digits, while a literal written with a fraction or
  an exponent carries the printed form of its value, so that the literals \<open>42.0\<close>
  and \<open>42\<close> both reach the mapper as the text \<open>42\<close>.
\<close>

datatype typeNode =
    ArrayTypeNode typeNode
  | TupleTypeNode "typeNode list"
  | OtherTypeNode string

datatype expression =
    StringLiteral string
  | NumericLiteral string
  | TrueKeyword
  | FalseKeyword
  | ArrayLiteralExpression "expression list"
  | CallExpression string "expression list"
  | OtherExpression

record VariableDeclaration =
  var_type :: "typeNode option"
  var_initializer :: "expression option"

record 'b FunctionDeclaration =
  func_type :: "typeNode option"
  func_body :: 'b

record ParameterDeclaration =
  param_type :: "typeNode option"
  param_initializer :: "expression option"

subsection \<open>What a mapping call returns\<close>

text \<open>
  The mapper's functions are declared to return a string. A table read that finds an
  inherited member returns that member instead, a built-in function or object.
  Inside a template literal a value is converted to its text; the text of a built-in is
  the host's.
\<close>

datatype jsvalue = Str string | Builtin string

definition builtin_text :: "string \<Rightarrow> string" where
  "builtin_text k =
     (if k = ''__proto__'' then ''[object Object]''
      else if k = ''constructor'' then ''function Object() { [native code] }''
      else ''function '' @ k @ ''() { [native code] }'')"

fun to_string :: "jsvalue \<Rightarrow> string" where
  "to_string (Str s) = s"
| "to_string (Builtin k) = builtin_text k"

text \<open>\<open>table[key]\<close> as a condition: \<open>undefined\<close> and the empty string are falsy.\<close>

definition truthy_entry :: "(string \<times> string) list \<Rightarrow> string \<Rightarrow> jsvalue option" where
  "truthy_entry table key =
     (case get_property table key of
        Own s \<Rightarrow> if s = [] then None else Some (Str s)
      | Inherited k \<Rightarrow> Some (Builtin k)
      | Undefined \<Rightarrow> None)"

subsection \<open>parseFloat\<close>

text \<open>
  \<open>parseFloat\<close> skips leading white space and reads the longest prefix that is a
  decimal literal: an optional sign, then \<open>Infinity\<close>, or digits with an optional
  fraction and an optional exponent. With no such prefix the result is \<open>NaN\<close>.
\<close>

definition isWhiteSpace :: "char \<Rightarrow> bool" where
  "isWhiteSpace c = (c \<in> set [CHR 0x09, CHR 0x0A, CHR 0x0B, CHR 0x0C, CHR 0x0D, CHR 0x20, CHR 0xA0])"

definition isDigit :: "char \<Rightarrow> bool" where
  "isDigit c = (c \<in> set ''0123456789'')"

definition digit_value :: "char \<Rightarrow> nat" where
  "digit_value c = of_char c - 48"

definition digits_value :: "string \<Rightarrow> nat" where
  "digits_value ds = foldl (\<lambda>n c. 10 * n + digit_value c) 0 ds"

fun take_sign :: "string \<Rightarrow> bool \<times> string" where
  "take_sign [] = (False, [])"
| "take_sign (c # cs) =
     (if c = CHR ''-'' then (True, cs) else if c = CHR ''+'' then (False, cs)
      else (False, c # cs))"

definition exponent_part :: "string \<Rightarrow> int" where
  "exponent_part s =
     (case s of
        [] \<Rightarrow> 0
      | c # cs \<Rightarrow>
          if c = CHR ''e'' \<or> c = CHR ''E''
          then (let (neg, r) = take_sign cs; ds = takeWhile isDigit r
                in if ds = [] then 0
                   else if neg then - int (digits_value ds) else int (digits_value ds))
          else 0)"

definition parseFloat :: "string \<Rightarrow> number" where
  "parseFloat inputString =
     (let (neg, s) = take_sign (dropWhile isWhiteSpace inputString)
      in if take 8 s = ''Infinity'' then (if neg then NegInfinity else PosInfinity)
         else
           let ip = takeWhile isDigit s;
               r1 = dropWhile isDigit s;
               dot = (r1 \<noteq> [] \<and> hd r1 = CHR ''.'');
               fp = (if dot then takeWhile isDigit (tl r1) else []);
               r2 = (if dot then dropWhile isDigit (tl r1) else r1)
           in if ip = [] \<and> fp = [] then NaN
              else
                let k = exponent_part r2 - int (length fp);
                    n = of_nat (digits_value (ip @ fp));
                    q = (if 0 \<le> k then n * 10 ^ nat k else n / 10 ^ nat (- k))
                in round_double (if neg then - q else q))"

subsection \<open>The mapper\<close>

definition typeMap :: "(string \<times> string) list" where
  "typeMap =
     [(''int'', ''int32_t''), (''short'', ''int16_t''), (''long'', ''int64_t''),
      (''float'', ''float''), (''double'', ''double''), (''bool'', ''bool''),
      (''boolean'', ''bool''), (''char'', ''char''), (''string'', ''std::string''),
      (''number'', ''double''), (''void'', ''void''), (''any'', ''auto'')]"

fun mapTypeNode :: "typeNode \<Rightarrow> jsvalue" where
  "mapTypeNode (ArrayTypeNode elementType) =
     Str (''std::vector<'' @ to_string (mapTypeNode elementType) @ ''>'')"
| "mapTypeNode (TupleTypeNode elements) =
     Str (''std::tuple<'' @ join '', '' (map (\<lambda>el. to_string (mapTypeNode el)) elements) @ ''>'')"
| "mapTypeNode (OtherTypeNode typeText) =
     (case truthy_entry typeMap typeText of Some v \<Rightarrow> v | None \<Rightarrow> Str ''auto'')"

definition typeConstructors :: "(string \<times> string) list" where
  "typeConstructors =
     [(''int'', ''int32_t''), (''short'', ''int16_t''), (''long'', ''int64_t''),
      (''float'', ''float''), (''double'', ''double''), (''bool'', ''bool''),
      (''char'', ''char''), (''string'', ''std::string'')]"

fun inferFromExpression :: "expression \<Rightarrow> jsvalue" where
  "inferFromExpression (StringLiteral s) = Str ''std::string''"
| "inferFromExpression (NumericLiteral text) =
     (let v = parseFloat text
      in if CHR ''.'' \<in> set text then Str ''double''
         else if Number_isInteger v
         then (if num_ge v (Finite (- 32768)) \<and> num_le v (Finite 32767) then Str ''int16_t''
               else if num_ge v (Finite (- 2147483648)) \<and> num_le v (Finite 2147483647)
               then Str ''int32_t''
               else Str ''int64_t'')
         else Str ''double'')"
| "inferFromExpression TrueKeyword = Str ''bool''"
| "inferFromExpression FalseKeyword = Str ''bool''"
| "inferFromExpression (ArrayLiteralExpression []) = Str ''std::vector<auto>''"
| "inferFromExpression (ArrayLiteralExpression (e # es)) =
     Str (''std::vector<'' @ to_string (inferFromExpression e) @ ''>'')"
| "inferFromExpression (CallExpression funcName args) =
     (case truthy_entry typeConstructors funcName of Some v \<Rightarrow> v | None \<Rightarrow> Str ''auto'')"
| "inferFromExpression OtherExpression = Str ''auto''"

definition getVariableType :: "VariableDeclaration \<Rightarrow> jsvalue" where
  "getVariableType declaration =
     (case var_type declaration of
        Some t \<Rightarrow> mapTypeNode t
      | None \<Rightarrow>
          (case var_initializer declaration of
             Some e \<Rightarrow> inferFromExpression e
           | None \<Rightarrow> Str ''auto''))"

definition getFunctionReturnType :: "'b FunctionDeclaration \<Rightarrow> jsvalue" where
  "getFunctionReturnType f =
     (case func_type f of Some t \<Rightarrow> mapTypeNode t | None \<Rightarrow> Str ''auto'')"

definition getParameterType :: "ParameterDeclaration \<Rightarrow> jsvalue" where
  "getParameterType param =
     (case param_type param of Some t \<Rightarrow> mapTypeNode t | None \<Rightarrow> Str ''auto'')"

section \<open>The second copy of the type system (unnamed/part_000)\<close>

text \<open>
  The repository holds a second module with the same exports as Types.ts. Its
  definitions are embedded from its own text, under the names of the source with the
  suffix \<open>_part000\<close>; it declares the same \<open>TypeMetadata\<close> and function
  wrapper shapes, which are shared.
\<close>

definition int_ctor_part000 :: "number \<Rightarrow> error + number" where
  "int_ctor_part000 v =
     (if \<not> Number_isInteger v
      then Inl (TypeError [Lit ''int requires an integer value, got '', Num v])
      else if num_lt v (Finite (- 2147483648)) \<or> num_gt v (Finite 2147483647)
      then Inl (RangeError [Lit ''int overflow: '', Num v,
                            Lit '' is out of range [-2147483648, 2147483647]''])
      else Inr v)"

definition short_ctor_part000 :: "number \<Rightarrow> error + number" where
  "short_ctor_part000 v =
     (if \<not> Number_isInteger v
      then Inl (TypeError [Lit ''short requires an integer value, got '', Num v])
      else if num_lt v (Finite (- 32768)) \<or> num_gt v (Finite 32767)
      then Inl (RangeError [Lit ''short overflow: '', Num v,
                            Lit '' is out of range [-32768, 32767]''])
      else Inr v)"

definition long_ctor_part000 :: "number \<Rightarrow> error + number" where
  "long_ctor_part000 v =
     (if \<not> Number_isInteger v
      then Inl (TypeError [Lit ''long requires an integer value, got '', Num v])
      else if num_lt v MIN_SAFE_INTEGER \<or> num_gt v MAX_SAFE_INTEGER
      then Inl (RangeError [Lit ''long overflow: '', Num v,
                            Lit '' is out of safe integer range''])
      else Inr v)"

definition float_ctor_part000 :: "number \<Rightarrow> error + number" where
  "float_ctor_part000 v =
     (let absValue = Math_abs v
      in if num_gt absValue (double_literal 34028235 31)
         then Inl (RangeError [Lit ''float overflow: '', Num v,
                               Lit '' exceeds maximum float value''])
         else if num_gt absValue (Finite 0) \<and> num_lt absValue (double_literal 1175494 (- 44))
         then Inl (RangeError [Lit ''float underflow: '', Num v,
                               Lit '' is below minimum float value''])
         else Inr v)"

definition double_ctor_part000 :: "number \<Rightarrow> error + number" where
  "double_ctor_part000 v = Inr v"

definition bool_ctor_part000 :: "bool \<Rightarrow> error + bool" where
  "bool_ctor_part000 v = Inr v"

definition char_ctor_part000 :: "string \<Rightarrow> error + string" where
  "char_ctor_part000 v =
     (if length v \<noteq> 1
      then Inl (TypeError [Lit ''char requires exactly one character, got \"'', Text v,
                           Lit ''\" (length: '', Count (length v), Lit '')''])
      else Inr v)"

definition TYPE_METADATA_part000 :: "(string \<times> TypeMetadata) list" where
  "TYPE_METADATA_part000 =
     [(''int'', \<lparr>md_name = ''int'', cppType = ''int32_t'', md_size = 4,
                md_min = Some (Finite (- 2147483648)), md_max = Some (Finite 2147483647)\<rparr>),
      (''short'', \<lparr>md_name = ''short'', cppType = ''int16_t'', md_size = 2,
                  md_min = Some (Finite (- 32768)), md_max = Some (Finite 32767)\<rparr>),
      (''long'', \<lparr>md_name = ''long'', cppType = ''int64_t'', md_size = 8,
                 md_min = Some MIN_SAFE_INTEGER, md_max = Some MAX_SAFE_INTEGER\<rparr>),
      (''float'', \<lparr>md_name = ''float'', cppType = ''float'', md_size = 4,
                  md_min = None, md_max = None\<rparr>),
      (''double'', \<lparr>md_name = ''double'', cppType = ''double'', md_size = 8,
                   md_min = None, md_max = None\<rparr>),
      (''bool'', \<lparr>md_name = ''bool'', cppType = ''bool'', md_size = 1,
                 md_min = None, md_max = None\<rparr>),
      (''char'', \<lparr>md_name = ''char'', cppType = ''char'', md_size = 1,
                 md_min = None, md_max = None\<rparr>),
      (''string'', \<lparr>md_name = ''string'', cppType = ''std::string'', md_size = - 1,
                   md_min = None, md_max = None\<rparr>),
      (''void'', \<lparr>md_name = ''void'', cppType = ''void'', md_size = 0,
                 md_min = None, md_max = None\<rparr>)]"

definition getCppType_part000 :: "string \<Rightarrow> string" where
  "getCppType_part000 typeName =
     (case get_property TYPE_METADATA_part000 typeName of
        Own m \<Rightarrow> if cppType m = [] then ''auto'' else cppType m
      | Inherited k \<Rightarrow> ''auto''
      | Undefined \<Rightarrow> ''auto'')"

definition isWithinBounds_part000 :: "number \<Rightarrow> string \<Rightarrow> bool" where
  "isWithinBounds_part000 v typeName =
     (case get_property TYPE_METADATA_part000 typeName of
        Own m \<Rightarrow>
          (case (md_min m, md_max m) of
             (Some lo, Some hi) \<Rightarrow> num_ge v lo \<and> num_le v hi
           | _ \<Rightarrow> True)
      | Inherited k \<Rightarrow> True
      | Undefined \<Rightarrow> True)"

definition getCppSignature_part000 :: "'f VexFunction \<Rightarrow> string" where
  "getCppSignature_part000 this =
     (let params = join '', '' (map (\<lambda>p. getCppType_part000 (p_type p) @ '' '' @ p_name p)
                                    (parameters this))
      in getCppType_part000 (returnType this) @ '' '' @ fn_name this @ ''('' @ params @ '')'')"

definition isIntegerType_part000 :: "string \<Rightarrow> bool" where
  "isIntegerType_part000 typeName = (typeName \<in> set [''int'', ''short'', ''long''])"

definition isFloatingType_part000 :: "string \<Rightarrow> bool" where
  "isFloatingType_part000 typeName = (typeName \<in> set [''float'', ''double''])"

definition isNumericType_part000 :: "string \<Rightarrow> bool" where
  "isNumericType_part000 typeName = (isIntegerType_part000 typeName \<or> isFloatingType_part000 typeName)"

definition isPrimitiveType_part000 :: "string \<Rightarrow> bool" where
  "isPrimitiveType_part000 typeName = has_property TYPE_METADATA_part000 typeName"

section \<open>Facts about rounding\<close>

lemma pow2_powi: "pow2 p = 2 powi p"
  by (simp add: pow2_def power_int_def inverse_eq_divide power_one_over)

lemma pow2_pos: "0 < pow2 p"
  by (simp add: pow2_powi)

lemma pow2_add: "pow2 (a + b) = pow2 a * pow2 b"
  by (simp add: pow2_powi power_int_add)

lemma pow2_mono: "a \<le> b \<Longrightarrow> pow2 a \<le> pow2 b"
  by (simp add: pow2_powi power_int_increasing)

lemma pow2_less_iff: "pow2 a < pow2 b \<longleftrightarrow> a < b"
proof
  assume "pow2 a < pow2 b"
  then show "a < b"
    using pow2_mono [of b a] by (cases "a < b") simp_all
next
  assume "a < b"
  then show "pow2 a < pow2 b"
    by (simp add: pow2_powi power_int_strict_increasing)
qed

lemma bitlen_rat_bounds:
  assumes "0 < a"
  shows "pow2 (bitlen a - 1) \<le> of_int a" "of_int a < pow2 (bitlen a)"
proof -
  from assms have b: "1 \<le> bitlen a"
    using bitlen_eq_zero_iff [of a] bitlen_nonneg [of a] by linarith
  from bitlen_bounds [OF assms]
  have lo: "2 ^ nat (bitlen a - 1) \<le> a" and hi: "a < 2 ^ nat (bitlen a)" by simp_all
  from lo have "(of_int (2 ^ nat (bitlen a - 1)) :: rat) \<le> of_int a"
    by (simp only: of_int_le_iff)
  with b show "pow2 (bitlen a - 1) \<le> of_int a"
    by (simp add: pow2_def)
  from hi have "(of_int a :: rat) < of_int (2 ^ nat (bitlen a))"
    by (simp only: of_int_less_iff)
  with b show "of_int a < pow2 (bitlen a)"
    by (simp add: pow2_def)
qed

lemma floor_log2_bounds:
  assumes "0 < q"
  shows "pow2 (floor_log2 q) \<le> q" "q < pow2 (floor_log2 q + 1)"
proof -
  obtain a b where ab: "quotient_of q = (a, b)" by (cases "quotient_of q")
  then have b: "0 < b" and q: "q = of_int a / of_int b"
    using quotient_of_denom_pos [OF ab] quotient_of_div [OF ab] by simp_all
  with assms have a: "0 < a"
    by (simp add: zero_less_divide_iff)
  define k where "k = bitlen a - bitlen b"
  note A = bitlen_rat_bounds [OF a] and B = bitlen_rat_bounds [OF b]
  have bq: "(0::rat) < of_int b" using b by simp
  have fl: "floor_log2 q = (if of_int a < of_int b * pow2 k then k - 1 else k)"
    by (simp add: floor_log2_def ab k_def)
  have low: "of_int b * pow2 (k - 1) \<le> (of_int a :: rat)"
  proof -
    have "of_int b * pow2 (k - 1) \<le> pow2 (bitlen b) * pow2 (k - 1)"
      using B(2) pow2_pos [of "k - 1"] by (simp add: mult_right_mono)
    also have "\<dots> = pow2 (bitlen a - 1)"
      by (simp add: pow2_add [symmetric] k_def)
    also have "\<dots> \<le> of_int a" by (rule A(1))
    finally show ?thesis .
  qed
  have high: "(of_int a :: rat) < of_int b * pow2 (k + 1)"
  proof -
    have "of_int a < pow2 (bitlen a)" by (rule A(2))
    also have "\<dots> = pow2 (bitlen b - 1) * pow2 (k + 1)"
      by (simp add: pow2_add [symmetric] k_def)
    also have "\<dots> \<le> of_int b * pow2 (k + 1)"
      using B(1) pow2_pos [of "k + 1"] by (simp add: mult_right_mono)
    finally show ?thesis .
  qed
  have le_iff: "pow2 n \<le> q \<longleftrightarrow> of_int b * pow2 n \<le> (of_int a :: rat)" for n
    using bq by (simp add: q pos_le_divide_eq mult.commute)
  have less_iff: "q < pow2 n \<longleftrightarrow> (of_int a :: rat) < of_int b * pow2 n" for n
    using bq by (simp add: q pos_divide_less_eq mult.commute)
  show "pow2 (floor_log2 q) \<le> q"
    unfolding le_iff fl using low by (simp add: not_less)
  show "q < pow2 (floor_log2 q + 1)"
    unfolding less_iff fl using high by simp
qed

lemma floor_log2_eqI:
  assumes "pow2 e \<le> q" "q < pow2 (e + 1)"
  shows "floor_log2 q = e"
proof -
  have q: "0 < q" using assms(1) pow2_pos [of e] by linarith
  note F = floor_log2_bounds [OF q]
  have "pow2 e < pow2 (floor_log2 q + 1)" using assms(1) F(2) by linarith
  then have 1: "e < floor_log2 q + 1" by (simp add: pow2_less_iff)
  have "pow2 (floor_log2 q) < pow2 (e + 1)" using assms(2) F(1) by linarith
  then have 2: "floor_log2 q < e + 1" by (simp add: pow2_less_iff)
  from 1 2 show ?thesis by linarith
qed

lemma round_half_even_eqI:
  assumes "\<bar>q - of_int m\<bar> < 1 / 2"
  shows "round_half_even q = m"
proof (cases "of_int m \<le> q")
  case True
  with assms have "\<lfloor>q\<rfloor> = m" by (intro floor_unique) linarith+
  with assms True show ?thesis
    by (simp add: round_half_even_def)
next
  case False
  with assms have "\<lfloor>q\<rfloor> = m - 1" by (intro floor_unique) (simp, linarith)+
  with assms False show ?thesis
    by (simp add: round_half_even_def)
qed

lemma round_double_eqI:
  assumes "pow2 e \<le> q" "q < pow2 (e + 1)" "p = max (e - 52) (- 1074)"
    and "\<bar>q / pow2 p - of_int m\<bar> < 1 / 2" "of_int m * pow2 p < 2 ^ 1024"
  shows "round_double q = Finite (of_int m * pow2 p)"
proof -
  have q: "0 < q" using assms(1) pow2_pos [of e] by linarith
  have e: "floor_log2 q = e" using assms(1,2) by (rule floor_log2_eqI)
  have m: "round_half_even (q / pow2 p) = m" using assms(4) by (rule round_half_even_eqI)
  from q e m assms(3,5) show ?thesis
    by (simp add: round_double_def Let_def)
qed

lemma FLOAT_MAX_literal:
  "double_literal 34028235 31 = Finite 340282349999999991754788743781432688640"
proof -
  have "round_double (34028235 * 10 ^ 31) = Finite (of_int 9007198806847480 * pow2 75)"
    by (rule round_double_eqI [where e = 127]) (simp_all add: pow2_def)
  then show ?thesis
    by (simp add: double_literal_def pow2_def)
qed

lemma FLOAT_MIN_literal:
  "double_literal 1175494 (- 44) = Finite (2251799141643259 / 2 ^ 177)"
proof -
  have "round_double (1175494 / 10 ^ 44) = Finite (of_int 9007196566573036 * pow2 (- 179))"
    by (rule round_double_eqI [where e = "- 127"]) (simp_all add: pow2_def)
  then show ?thesis
    by (simp add: double_literal_def pow2_def)
qed

section \<open>The bounded value constructors\<close>

lemma Number_isInteger_iff: "Number_isInteger v \<longleftrightarrow> (\<exists>n::int. v = Finite (of_int n))"
proof (cases v)
  case (Finite q)
  have "of_int \<lfloor>q\<rfloor> = q \<longleftrightarrow> (\<exists>n::int. q = of_int n)"
    by (metis floor_of_int)
  with Finite show ?thesis by simp
qed simp_all

text \<open>
  Claim C6. For every number \<open>v\<close>, \<open>short(v)\<close> throws a TypeError exactly when
  \<open>v\<close> is not a whole number; for a whole number it throws a RangeError exactly when
  \<open>v < -32768\<close> or \<open>v > 32767\<close>, and otherwise returns \<open>v\<close>. In particular
  \<open>short(32768)\<close> and \<open>short(-32769)\<close> throw a RangeError. The same holds of
  \<open>int\<close> with the bounds \<open>-2147483648\<close> and \<open>2147483647\<close>.
\<close>

theorem short_int_contract:
  "((\<exists>m. short_ctor v = Inl (TypeError m)) \<longleftrightarrow> (\<forall>n::int. v \<noteq> Finite (of_int n)))
   \<and> (\<forall>n::int. v = Finite (of_int n) \<longrightarrow>
         ((\<exists>m. short_ctor v = Inl (RangeError m)) \<longleftrightarrow> (n < - 32768 \<or> 32767 < n))
         \<and> (- 32768 \<le> n \<and> n \<le> 32767 \<longrightarrow> short_ctor v = Inr v))
   \<and> (\<exists>m. short_ctor (Finite 32768) = Inl (RangeError m))
   \<and> (\<exists>m. short_ctor (Finite (- 32769)) = Inl (RangeError m))
   \<and> ((\<exists>m. int_ctor v = Inl (TypeError m)) \<longleftrightarrow> (\<forall>n::int. v \<noteq> Finite (of_int n)))
   \<and> (\<forall>n::int. v = Finite (of_int n) \<longrightarrow>
         ((\<exists>m. int_ctor v = Inl (RangeError m)) \<longleftrightarrow> (n < - 2147483648 \<or> 2147483647 < n))
         \<and> (- 2147483648 \<le> n \<and> n \<le> 2147483647 \<longrightarrow> int_ctor v = Inr v))"
proof -
  have whole: "(\<forall>n::int. v \<noteq> Finite (of_int n)) \<longleftrightarrow> \<not> Number_isInteger v"
    by (simp add: Number_isInteger_iff)
  have s1: "(\<exists>m. short_ctor v = Inl (TypeError m)) \<longleftrightarrow> (\<forall>n::int. v \<noteq> Finite (of_int n))"
    unfolding whole by (simp add: short_ctor_def)
  have i1: "(\<exists>m. int_ctor v = Inl (TypeError m)) \<longleftrightarrow> (\<forall>n::int. v \<noteq> Finite (of_int n))"
    unfolding whole by (simp add: int_ctor_def)
  have s2: "((\<exists>m. short_ctor v = Inl (RangeError m)) \<longleftrightarrow> (n < - 32768 \<or> 32767 < n))
         \<and> (- 32768 \<le> n \<and> n \<le> 32767 \<longrightarrow> short_ctor v = Inr v)"
    if "v = Finite (of_int n)" for n :: int
  proof -
    have "(of_int n :: rat) < - 32768 \<longleftrightarrow> n < - 32768" "(32767 :: rat) < of_int n \<longleftrightarrow> 32767 < n"
      by linarith+
    with that show ?thesis
      by (auto simp: short_ctor_def num_gt_def)
  qed
  have i2: "((\<exists>m. int_ctor v = Inl (RangeError m)) \<longleftrightarrow> (n < - 2147483648 \<or> 2147483647 < n))
         \<and> (- 2147483648 \<le> n \<and> n \<le> 2147483647 \<longrightarrow> int_ctor v = Inr v)"
    if "v = Finite (of_int n)" for n :: int
  proof -
    have "(of_int n :: rat) < - 2147483648 \<longleftrightarrow> n < - 2147483648"
      "(2147483647 :: rat) < of_int n \<longleftrightarrow> 2147483647 < n"
      by linarith+
    with that show ?thesis
      by (auto simp: int_ctor_def num_gt_def)
  qed
  have e1: "\<exists>m. short_ctor (Finite 32768) = Inl (RangeError m)"
    by (simp add: short_ctor_def num_gt_def)
  have e2: "\<exists>m. short_ctor (Finite (- 32769)) = Inl (RangeError m)"
    by (simp add: short_ctor_def num_gt_def)
  from s1 s2 e1 e2 i1 i2 show ?thesis by blast
qed

theorem short_int_contract_witness:
  "short_ctor (Finite 7) = Inr (Finite 7)
   \<and> (\<exists>m. short_ctor (Finite 40000) = Inl (RangeError m))
   \<and> int_ctor (Finite 40000) = Inr (Finite 40000)
   \<and> (\<exists>m. int_ctor (Finite (1 / 2)) = Inl (TypeError m))"
proof -
  have h: "\<forall>n::int. Finite (1 / 2) \<noteq> Finite (of_int n)"
  proof (intro allI notI)
    fix n :: int
    assume "Finite (1 / 2) = Finite (of_int n)"
    then have "(of_int n :: rat) * 2 = 1" by simp
    then have "n * 2 = 1" by (metis (mono_tags) of_int_eq_iff of_int_mult of_int_numeral of_int_1)
    then show False by presburger
  qed
  show ?thesis
    using short_int_contract [of "Finite 7", THEN conjunct2, THEN conjunct1, rule_format, of 7]
      short_int_contract [of "Finite 40000", THEN conjunct2, THEN conjunct1, rule_format, of 40000]
      short_int_contract [of "Finite 40000", THEN conjunct2, THEN conjunct2, THEN conjunct2,
        THEN conjunct2, THEN conjunct2, rule_format, of 40000]
      short_int_contract [of "Finite (1 / 2)", THEN conjunct2, THEN conjunct2, THEN conjunct2,
        THEN conjunct2, THEN conjunct1] h
    by simp
qed

lemma num_lt_NaN_right [simp]: "num_lt x NaN = False"
  by (cases x) simp_all

lemma literal_34028236e31:
  "double_literal 34028236 31 = Finite 340282359999999991113723490719674400768"
proof -
  have "round_double (34028236 * 10 ^ 31) = Finite (of_int 9007199071545276 * pow2 75)"
    by (rule round_double_eqI [where e = 127]) (simp_all add: pow2_def)
  then show ?thesis
    by (simp add: double_literal_def pow2_def)
qed

lemma literal_1e_40:
  "double_literal 1 (- 40) = Finite (1225996432692711 / 2 ^ 183)"
proof -
  have "round_double (1 / 10 ^ 40) = Finite (of_int 4903985730770844 * pow2 (- 185))"
    by (rule round_double_eqI [where e = "- 133"]) (simp_all add: pow2_def)
  then show ?thesis
    by (simp add: double_literal_def pow2_def)
qed

text \<open>
  Claim C7. For every number \<open>v\<close>, \<open>float(v)\<close> throws the RangeError "float
  overflow" exactly when \<open>|v| > 3.4028235e38\<close>, throws the RangeError "float
  underflow" exactly when \<open>0 < |v| < 1.175494e-38\<close>, and otherwise returns \<open>v\<close>.
  \<open>float(3.4028236e38)\<close> overflows, \<open>float(1e-40)\<close> underflows, \<open>float(0)\<close>
  succeeds, and so does the fraction \<open>float(0.5)\<close>: there is no whole-number check.
  The two bounds are the doubles the literals denote, written out for a finite \<open>v\<close>.
\<close>

theorem float_contract:
  "(float_ctor v = Inl (RangeError [Lit ''float overflow: '', Num v,
                                    Lit '' exceeds maximum float value''])
      \<longleftrightarrow> num_gt (Math_abs v) (double_literal 34028235 31))
   \<and> (float_ctor v = Inl (RangeError [Lit ''float underflow: '', Num v,
                                      Lit '' is below minimum float value''])
      \<longleftrightarrow> num_gt (Math_abs v) (Finite 0) \<and> num_lt (Math_abs v) (double_literal 1175494 (- 44)))
   \<and> (float_ctor v = Inr v
      \<longleftrightarrow> \<not> num_gt (Math_abs v) (double_literal 34028235 31)
          \<and> \<not> (num_gt (Math_abs v) (Finite 0) \<and> num_lt (Math_abs v) (double_literal 1175494 (- 44))))
   \<and> (\<forall>q. v = Finite q \<longrightarrow>
         (num_gt (Math_abs v) (double_literal 34028235 31)
            \<longleftrightarrow> 340282349999999991754788743781432688640 < \<bar>q\<bar>)
       \<and> (num_gt (Math_abs v) (Finite 0) \<and> num_lt (Math_abs v) (double_literal 1175494 (- 44))
            \<longleftrightarrow> 0 < \<bar>q\<bar> \<and> \<bar>q\<bar> < 2251799141643259 / 2 ^ 177))
   \<and> float_ctor (double_literal 34028236 31) =
       Inl (RangeError [Lit ''float overflow: '', Num (double_literal 34028236 31),
                        Lit '' exceeds maximum float value''])
   \<and> float_ctor (double_literal 1 (- 40)) =
       Inl (RangeError [Lit ''float underflow: '', Num (double_literal 1 (- 40)),
                        Lit '' is below minimum float value''])
   \<and> float_ctor (Finite 0) = Inr (Finite 0)
   \<and> float_ctor (Finite (1 / 2)) = Inr (Finite (1 / 2))
   \<and> float_ctor NaN = Inr NaN"
proof -
  let ?over = "\<lambda>v. num_gt (Math_abs v) (double_literal 34028235 31)"
  let ?under = "\<lambda>v. num_gt (Math_abs v) (Finite 0) \<and> num_lt (Math_abs v) (double_literal 1175494 (- 44))"
  have disjoint: "\<not> (?over v \<and> ?under v)" for v
    by (cases v) (simp_all add: FLOAT_MAX_literal FLOAT_MIN_literal num_gt_def)
  have c1: "float_ctor v = Inl (RangeError [Lit ''float overflow: '', Num v,
                                    Lit '' exceeds maximum float value'']) \<longleftrightarrow> ?over v" for v
    by (simp add: float_ctor_def Let_def)
  have c2: "float_ctor v = Inl (RangeError [Lit ''float underflow: '', Num v,
                                      Lit '' is below minimum float value'']) \<longleftrightarrow> ?under v" for v
    using disjoint [of v] by (auto simp: float_ctor_def Let_def)
  have c3: "float_ctor v = Inr v \<longleftrightarrow> \<not> ?over v \<and> \<not> ?under v" for v
    by (simp add: float_ctor_def Let_def)
  have c4: "(?over v \<longleftrightarrow> 340282349999999991754788743781432688640 < \<bar>q\<bar>)
       \<and> (?under v \<longleftrightarrow> 0 < \<bar>q\<bar> \<and> \<bar>q\<bar> < 2251799141643259 / 2 ^ 177)" if "v = Finite q" for q
    using that by (simp add: FLOAT_MAX_literal FLOAT_MIN_literal num_gt_def)
  have e1: "?over (double_literal 34028236 31)"
    by (simp add: literal_34028236e31 FLOAT_MAX_literal num_gt_def)
  have e2: "?under (double_literal 1 (- 40))"
    by (simp add: literal_1e_40 FLOAT_MIN_literal num_gt_def)
  have e3: "\<not> ?over (Finite 0) \<and> \<not> ?under (Finite 0)"
    by (simp add: FLOAT_MAX_literal num_gt_def)
  have e4: "\<not> ?over (Finite (1 / 2)) \<and> \<not> ?under (Finite (1 / 2))"
    by (simp add: FLOAT_MAX_literal FLOAT_MIN_literal num_gt_def)
  have e5: "\<not> ?over NaN \<and> \<not> ?under NaN"
    by (simp add: num_gt_def)
  show ?thesis
    using c1 [of v] c2 [of v] c3 [of v] c4 e1 [folded c1] e2 [folded c2] e3 [folded c3]
      e4 [folded c3] e5 [folded c3]
    by blast
qed

theorem float_contract_witness:
  "float_ctor (Finite 1) = Inr (Finite 1)
   \<and> \<not> num_gt (Math_abs (Finite 1)) (double_literal 34028235 31)"
proof -
  have h: "\<not> (340282349999999991754788743781432688640 < \<bar>1 :: rat\<bar>)"
    "\<not> (0 < \<bar>1 :: rat\<bar> \<and> \<bar>1 :: rat\<bar> < 2251799141643259 / 2 ^ 177)" by simp_all
  from float_contract [of "Finite 1"] h show ?thesis by blast
qed

section \<open>Metadata table, function wrapper, and the second copy\<close>

lemma getCppType_own:
  "getCppType typeName =
     (case map_of TYPE_METADATA typeName of Some m \<Rightarrow> cppType m | None \<Rightarrow> ''auto'')"
  by (auto simp: getCppType_def get_property_def TYPE_METADATA_def split: option.splits)

text \<open>
  Claim C8. The signature is a function of the name, the return type and the
  parameters alone: the mapped return type, a space, the name, and in parentheses the
  parameters in declaration order, each as its mapped type, a space and its name,
  joined by a comma and a space. A type name maps to its entry's target representation
  in the metadata table, and to \<open>auto\<close> when the table has no such entry. For
  \<open>add\<close> with return type \<open>int\<close> and parameters \<open>a\<close>, \<open>b\<close> of type \<open>int\<close> the
  signature is \<open>int32_t add(int32_t a, int32_t b)\<close>.
\<close>

theorem getCppSignature_render:
  "getCppSignature f =
     getCppType (returnType f) @ '' '' @ fn_name f @ ''(''
       @ join '', '' (map (\<lambda>p. getCppType (p_type p) @ '' '' @ p_name p) (parameters f)) @ '')''
   \<and> getCppSignature \<lparr>fn_name = n, returnType = r, parameters = ps, func = g\<rparr>
       = getCppSignature \<lparr>fn_name = n, returnType = r, parameters = ps, func = h\<rparr>
   \<and> getCppSignature \<lparr>fn_name = n, returnType = r, parameters = [], func = g\<rparr>
       = getCppType r @ '' '' @ n @ ''()''
   \<and> getCppSignature \<lparr>fn_name = n, returnType = r, parameters = [p], func = g\<rparr>
       = getCppType r @ '' '' @ n @ ''('' @ getCppType (p_type p) @ '' '' @ p_name p @ '')''
   \<and> getCppType t = (case map_of TYPE_METADATA t of Some m \<Rightarrow> cppType m | None \<Rightarrow> ''auto'')
   \<and> getCppSignature \<lparr>fn_name = ''add'', returnType = ''int'',
         parameters = [\<lparr>p_name = ''a'', p_type = ''int''\<rparr>, \<lparr>p_name = ''b'', p_type = ''int''\<rparr>],
         func = g\<rparr> = ''int32_t add(int32_t a, int32_t b)''"
proof -
  have int: "getCppType ''int'' = ''int32_t''"
    by (simp add: getCppType_own TYPE_METADATA_def)
  show ?thesis
    by (simp add: getCppSignature_def getCppType_own [of t] int)
qed

text \<open>
  Claim C9. \<open>isPrimitiveType(s)\<close> is meant to hold exactly for the nine keys of the
  metadata table. The test \<open>typeName in TYPE_METADATA\<close> also finds the names every
  object inherits: \<open>toString\<close> is not a key of the table, and the function returns
  true for it.
\<close>

theorem isPrimitiveType_toString:
  "isPrimitiveType ''toString'' = True
   \<and> ''toString'' \<notin> set [''int'', ''short'', ''long'', ''float'', ''double'', ''bool'', ''char'',
                           ''string'', ''void'']
   \<and> map_of TYPE_METADATA ''toString'' = None"
  by (simp add: isPrimitiveType_def has_property_def Object_prototype_keys_def TYPE_METADATA_def)

lemma isPrimitiveType_iff:
  "isPrimitiveType s \<longleftrightarrow>
     s \<in> set [''int'', ''short'', ''long'', ''float'', ''double'', ''bool'', ''char'',
               ''string'', ''void'']
     \<or> s \<in> set Object_prototype_keys"
  by (auto simp: isPrimitiveType_def has_property_def TYPE_METADATA_def)

text \<open>
  Claim C10. The second module computes what Types.ts computes: each constructor
  succeeds or fails identically and returns the same value, the metadata tables are
  equal, and the lookups, the bounds check, the classification predicates and the
  signature rendering agree on every input.
\<close>

theorem part000_equals_Types:
  "int_ctor_part000 v = int_ctor v
   \<and> short_ctor_part000 v = short_ctor v
   \<and> long_ctor_part000 v = long_ctor v
   \<and> float_ctor_part000 v = float_ctor v
   \<and> double_ctor_part000 v = double_ctor v
   \<and> bool_ctor_part000 b = bool_ctor b
   \<and> char_ctor_part000 s = char_ctor s
   \<and> TYPE_METADATA_part000 = TYPE_METADATA
   \<and> getCppType_part000 t = getCppType t
   \<and> isWithinBounds_part000 v t = isWithinBounds v t
   \<and> isIntegerType_part000 t = isIntegerType t
   \<and> isFloatingType_part000 t = isFloatingType t
   \<and> isNumericType_part000 t = isNumericType t
   \<and> isPrimitiveType_part000 t = isPrimitiveType t
   \<and> getCppSignature_part000 f = getCppSignature f"
proof -
  have tbl: "TYPE_METADATA_part000 = TYPE_METADATA"
    by (simp add: TYPE_METADATA_part000_def TYPE_METADATA_def)
  have cpp: "getCppType_part000 = getCppType"
    by (rule ext) (simp add: getCppType_part000_def getCppType_def tbl)
  have ctors: "int_ctor_part000 v = int_ctor v" "short_ctor_part000 v = short_ctor v"
    "long_ctor_part000 v = long_ctor v" "float_ctor_part000 v = float_ctor v"
    "double_ctor_part000 v = double_ctor v" "bool_ctor_part000 b = bool_ctor b"
    "char_ctor_part000 s = char_ctor s"
    by (simp_all only: int_ctor_part000_def int_ctor_def short_ctor_part000_def short_ctor_def
        long_ctor_part000_def long_ctor_def float_ctor_part000_def float_ctor_def
        double_ctor_part000_def double_ctor_def bool_ctor_part000_def bool_ctor_def
        char_ctor_part000_def char_ctor_def)
  have preds: "isWithinBounds_part000 v t = isWithinBounds v t"
    "isIntegerType_part000 t = isIntegerType t" "isFloatingType_part000 t = isFloatingType t"
    "isNumericType_part000 t = isNumericType t" "isPrimitiveType_part000 t = isPrimitiveType t"
    by (simp_all only: isWithinBounds_part000_def isWithinBounds_def tbl
        isIntegerType_part000_def isIntegerType_def isFloatingType_part000_def isFloatingType_def
        isNumericType_part000_def isNumericType_def isPrimitiveType_part000_def isPrimitiveType_def)
  have sig: "getCppSignature_part000 f = getCppSignature f"
    by (simp only: getCppSignature_part000_def getCppSignature_def cpp)
  from tbl cpp ctors preds sig show ?thesis by simp
qed

section \<open>The mapping engine: annotations, precedence, calls\<close>

lemma truthy_entry_eq:
  "truthy_entry table k =
     (case map_of table k of
        Some s \<Rightarrow> if s = [] then None else Some (Str s)
      | None \<Rightarrow> if k \<in> set Object_prototype_keys then Some (Builtin k) else None)"
  by (simp add: truthy_entry_def get_property_def split: option.splits)

lemma typeMap_short: "truthy_entry typeMap ''short'' = Some (Str ''int16_t'')"
  by (simp add: truthy_entry_eq typeMap_def)

lemma mapTypeNode_nested:
  "to_string (mapTypeNode ((ArrayTypeNode ^^ n) t))
     = ((\<lambda>s. ''std::vector<'' @ s @ ''>'') ^^ n) (to_string (mapTypeNode t))"
  by (induction n) simp_all

text \<open>
  Claim C2. Annotation mapping follows the structure of the annotation: an array of
  \<open>T\<close> maps to \<open>std::vector<M(T)>\<close>, a tuple of \<open>T1 .. Tn\<close> to
  \<open>std::tuple<M(T1), ..., M(Tn)>\<close> in the order of the elements, and \<open>n\<close> array
  levels around \<open>T\<close> give exactly \<open>n\<close> vector levels around \<open>M(T)\<close>. So
  \<open>short[]\<close> maps to \<open>std::vector<int16_t>\<close> and \<open>short[][]\<close> to
  \<open>std::vector<std::vector<int16_t>>\<close>.
\<close>

theorem mapTypeNode_structural:
  "mapTypeNode (ArrayTypeNode t) = Str (''std::vector<'' @ to_string (mapTypeNode t) @ ''>'')
   \<and> mapTypeNode (TupleTypeNode ts)
       = Str (''std::tuple<'' @ join '', '' (map (\<lambda>el. to_string (mapTypeNode el)) ts) @ ''>'')
   \<and> mapTypeNode (TupleTypeNode [t1, t2, t3])
       = Str (''std::tuple<'' @ to_string (mapTypeNode t1) @ '', '' @ to_string (mapTypeNode t2)
              @ '', '' @ to_string (mapTypeNode t3) @ ''>'')
   \<and> to_string (mapTypeNode ((ArrayTypeNode ^^ n) t))
       = ((\<lambda>s. ''std::vector<'' @ s @ ''>'') ^^ n) (to_string (mapTypeNode t))
   \<and> mapTypeNode (OtherTypeNode ''short'') = Str ''int16_t''
   \<and> mapTypeNode (ArrayTypeNode (OtherTypeNode ''short'')) = Str ''std::vector<int16_t>''
   \<and> mapTypeNode (ArrayTypeNode (ArrayTypeNode (OtherTypeNode ''short'')))
       = Str ''std::vector<std::vector<int16_t>>''"
  by (simp add: mapTypeNode_nested typeMap_short)

text \<open>
  Claim C3. For a variable declaration an annotation, when present, decides the type
  and the initializer is not looked at; with no annotation the initializer decides;
  with neither the result is \<open>auto\<close>. A function's return type and a parameter's type
  are the mapped annotation, and \<open>auto\<close> without one, whatever the function body or
  the parameter's default value.
\<close>

theorem resolution_precedence:
  "(var_type d = Some t \<longrightarrow> getVariableType d = mapTypeNode t)
   \<and> (var_type d = None \<and> var_initializer d = Some e
        \<longrightarrow> getVariableType d = inferFromExpression e)
   \<and> (var_type d = None \<and> var_initializer d = None \<longrightarrow> getVariableType d = Str ''auto'')
   \<and> (func_type f = Some t \<longrightarrow> getFunctionReturnType f = mapTypeNode t)
   \<and> (func_type f = None \<longrightarrow> getFunctionReturnType f = Str ''auto'')
   \<and> (param_type p = Some t \<longrightarrow> getParameterType p = mapTypeNode t)
   \<and> (param_type p = None \<longrightarrow> getParameterType p = Str ''auto'')"
  by (simp add: getVariableType_def getFunctionReturnType_def getParameterType_def)

theorem resolution_precedence_witness:
  "getVariableType \<lparr>var_type = Some (OtherTypeNode ''short''),
                    var_initializer = Some (StringLiteral ''x'')\<rparr> = Str ''int16_t''
   \<and> getVariableType \<lparr>var_type = None, var_initializer = Some (StringLiteral ''x'')\<rparr>
       = Str ''std::string''
   \<and> getVariableType \<lparr>var_type = None, var_initializer = None\<rparr> = Str ''auto''
   \<and> getFunctionReturnType \<lparr>func_type = Some (OtherTypeNode ''short''),
                             func_body = [StringLiteral ''x'']\<rparr> = Str ''int16_t''
   \<and> getFunctionReturnType \<lparr>func_type = None, func_body = [StringLiteral ''x'']\<rparr> = Str ''auto''
   \<and> getParameterType \<lparr>param_type = Some (OtherTypeNode ''short''),
                        param_initializer = None\<rparr> = Str ''int16_t''
   \<and> getParameterType \<lparr>param_type = None, param_initializer = Some TrueKeyword\<rparr> = Str ''auto''"
  using resolution_precedence [of "\<lparr>var_type = Some (OtherTypeNode ''short''),
                    var_initializer = Some (StringLiteral ''x'')\<rparr>" "OtherTypeNode ''short''"
        "StringLiteral ''x''" "\<lparr>func_type = Some (OtherTypeNode ''short''),
                             func_body = [StringLiteral ''x'']\<rparr>"
        "\<lparr>param_type = Some (OtherTypeNode ''short''), param_initializer = None\<rparr>"]
    resolution_precedence [of "\<lparr>var_type = None, var_initializer = Some (StringLiteral ''x'')\<rparr>"
        "OtherTypeNode ''short''" "StringLiteral ''x''"
        "\<lparr>func_type = None, func_body = [StringLiteral ''x'']\<rparr>"
        "\<lparr>param_type = None, param_initializer = Some TrueKeyword\<rparr>"]
    resolution_precedence [of "\<lparr>var_type = None, var_initializer = None\<rparr>"
        "OtherTypeNode ''short''" "StringLiteral ''x''"
        "\<lparr>func_type = None, func_body = [StringLiteral ''x'']\<rparr>"
        "\<lparr>param_type = None, param_initializer = Some TrueKeyword\<rparr>"]
  by (simp add: typeMap_short)

text \<open>
  Claim C4, as the code has it. A call whose callee is named \<open>int\<close>, \<open>short\<close>,
  \<open>long\<close>, \<open>float\<close>, \<open>double\<close>, \<open>bool\<close>, \<open>char\<close> or \<open>string\<close> maps to
  that name's target representation, whatever the arguments; \<open>string\<close> is in the
  table too and maps to \<open>std::string\<close>. A call with any other callee name that is
  not the name of an inherited member maps to \<open>auto\<close>.
\<close>

theorem call_expression_by_name:
  "inferFromExpression (CallExpression ''int'' args) = Str ''int32_t''
   \<and> inferFromExpression (CallExpression ''short'' args) = Str ''int16_t''
   \<and> inferFromExpression (CallExpression ''long'' args) = Str ''int64_t''
   \<and> inferFromExpression (CallExpression ''float'' args) = Str ''float''
   \<and> inferFromExpression (CallExpression ''double'' args) = Str ''double''
   \<and> inferFromExpression (CallExpression ''bool'' args) = Str ''bool''
   \<and> inferFromExpression (CallExpression ''char'' args) = Str ''char''
   \<and> inferFromExpression (CallExpression ''string'' args) = Str ''std::string''
   \<and> (funcName \<notin> set [''int'', ''short'', ''long'', ''float'', ''double'', ''bool'', ''char'',
                        ''string'']
        \<and> funcName \<notin> set Object_prototype_keys
        \<longrightarrow> inferFromExpression (CallExpression funcName args) = Str ''auto'')"
  by (simp add: truthy_entry_eq typeConstructors_def)

theorem call_expression_by_name_witness:
  "inferFromExpression (CallExpression ''parseInt'' [StringLiteral ''7'']) = Str ''auto''"
  using call_expression_by_name [of "[StringLiteral ''7'']" "''parseInt''"]
  by (simp add: Object_prototype_keys_def)

theorem call_expression_string_counterexample:
  "''string'' \<notin> set [''int'', ''short'', ''long'', ''float'', ''double'', ''bool'', ''char'']
   \<and> inferFromExpression (CallExpression ''string'' []) = Str ''std::string''
   \<and> inferFromExpression (CallExpression ''string'' []) \<noteq> Str ''auto''"
  by (simp add: truthy_entry_eq typeConstructors_def)

text \<open>
  Every mapping call returns a string, except a read of a name that is an inherited
  member: an annotation whose whole text is such a name, or a call of a function so
  named.
\<close>

lemma mapTypeNode_string_or_builtin:
  "(\<exists>s. mapTypeNode t = Str s)
   \<or> (\<exists>k\<in>set Object_prototype_keys. t = OtherTypeNode k \<and> mapTypeNode t = Builtin k)"
  by (cases t) (auto simp: truthy_entry_eq split: option.splits)

lemma inferFromExpression_string_or_builtin:
  "(\<exists>s. inferFromExpression e = Str s)
   \<or> (\<exists>k\<in>set Object_prototype_keys. \<exists>args. e = CallExpression k args
         \<and> inferFromExpression e = Builtin k)"
proof (cases e)
  case (NumericLiteral x)
  then show ?thesis by (simp add: Let_def)
next
  case (ArrayLiteralExpression es)
  then show ?thesis by (cases es) simp_all
next
  case (CallExpression k args)
  then show ?thesis by (auto simp: truthy_entry_eq split: option.splits)
qed simp_all

text \<open>
  Claim C5. The mapping functions have no throwing path and are total, and they are
  declared to return a type name. For a call of a function named like an inherited
  member, and for an annotation so named, the table read returns the inherited member
  itself, which is not a string.
\<close>

theorem inferFromExpression_toString:
  "inferFromExpression (CallExpression ''toString'' []) = Builtin ''toString''
   \<and> mapTypeNode (OtherTypeNode ''toString'') = Builtin ''toString''
   \<and> getVariableType \<lparr>var_type = None, var_initializer = Some (CallExpression ''toString'' [])\<rparr>
       = Builtin ''toString''"
  by (simp add: truthy_entry_eq typeConstructors_def typeMap_def
      Object_prototype_keys_def getVariableType_def)

section \<open>The mapping engine: numeric literals\<close>

lemma isDigit_not_special:
  assumes "isDigit c"
  shows "\<not> isWhiteSpace c" "c \<noteq> CHR ''-''" "c \<noteq> CHR ''+''" "c \<noteq> CHR ''I''" "digit_value c \<le> 9"
  using assms by (auto simp: isDigit_def isWhiteSpace_def digit_value_def)

lemma foldl_digits_bound:
  assumes "\<forall>c\<in>set ds. isDigit c"
  shows "foldl (\<lambda>n c. 10 * n + digit_value c) a ds < (a + 1) * 10 ^ length ds"
  using assms
proof (induction ds arbitrary: a)
  case Nil
  then show ?case by simp
next
  case (Cons c cs)
  then have d: "digit_value c \<le> 9" by (simp add: isDigit_not_special)
  from Cons have "foldl (\<lambda>n c. 10 * n + digit_value c) (10 * a + digit_value c) cs
      < (10 * a + digit_value c + 1) * 10 ^ length cs" by simp
  also from d have "\<dots> \<le> (10 * a + 10) * 10 ^ length cs"
    by (intro mult_right_mono) simp_all
  finally show ?case by (simp add: algebra_simps)
qed

lemma digits_value_bound:
  assumes "\<forall>c\<in>set ds. isDigit c"
  shows "digits_value ds < 10 ^ length ds"
  using foldl_digits_bound [OF assms, of 0] by (simp add: digits_value_def)

lemma parseFloat_digits:
  assumes "ds \<noteq> []" "\<forall>c\<in>set ds. isDigit c"
  shows "parseFloat ds = round_double (of_nat (digits_value ds))"
proof -
  from assms(1) obtain c cs where ds: "ds = c # cs" by (cases ds) auto
  with assms(2) have c: "isDigit c" by simp
  note C = isDigit_not_special [OF c]
  have ws: "dropWhile isWhiteSpace ds = ds" using C(1) by (simp add: ds)
  have sg: "take_sign ds = (False, ds)" using C(2,3) by (simp add: ds)
  have inf: "take 8 ds \<noteq> ''Infinity''" using C(4) by (simp add: ds)
  have tw: "takeWhile isDigit ds = ds" "dropWhile isDigit ds = []"
    using assms(2) by simp_all
  show ?thesis
    by (simp add: parseFloat_def ws sg inf tw Let_def exponent_part_def assms(1))
qed

lemma round_double_nat_small:
  assumes "n < 2 ^ 53"
  shows "round_double (of_nat n) = Finite (of_nat n)"
proof (cases "n = 0")
  case True
  then show ?thesis by (simp add: round_double_def)
next
  case False
  define q :: rat where "q = of_nat n"
  define e where "e = floor_log2 q"
  from False have q1: "1 \<le> q" by (simp add: q_def)
  then have q0: "0 < q" by linarith
  have q53: "q < 2 ^ 53"
    using assms unfolding q_def by (metis of_nat_less_iff of_nat_numeral of_nat_power)
  note F = floor_log2_bounds [OF q0, folded e_def]
  have "pow2 0 < pow2 (e + 1)" using q1 F(2) by (simp add: pow2_def)
  then have e0: "0 \<le> e" by (simp add: pow2_less_iff)
  have "pow2 e < pow2 53" using q53 F(1) by (simp add: pow2_def)
  then have e52: "e \<le> 52" by (simp add: pow2_less_iff)
  define m where "m = int n * 2 ^ nat (52 - e)"
  have p: "pow2 (e - 52) = 1 / 2 ^ nat (52 - e)"
    using e52 by (cases "e = 52") (simp_all add: pow2_def)
  have mq: "of_int m = q / pow2 (e - 52)"
    by (simp add: m_def q_def p)
  have "round_double q = Finite (of_int m * pow2 (e - 52))"
  proof (rule round_double_eqI [where e = e])
    show "pow2 e \<le> q" "q < pow2 (e + 1)" by (rule F)+
    show "e - 52 = max (e - 52) (- 1074)" using e0 by simp
    show "\<bar>q / pow2 (e - 52) - of_int m\<bar> < 1 / 2" by (simp add: mq)
    have "of_int m * pow2 (e - 52) = q" using pow2_pos [of "e - 52"] by (simp add: mq)
    also have "\<dots> < 2 ^ 1024" using q53 by (rule less_trans) simp
    finally show "of_int m * pow2 (e - 52) < 2 ^ 1024" .
  qed
  moreover have "of_int m * pow2 (e - 52) = q" using pow2_pos [of "e - 52"] by (simp add: mq)
  ultimately show ?thesis by (simp add: q_def)
qed

lemma round_half_even_range:
  "\<lfloor>q\<rfloor> \<le> round_half_even q" "round_half_even q \<le> \<lceil>q\<rceil>"
proof -
  show "\<lfloor>q\<rfloor> \<le> round_half_even q" by (simp add: round_half_even_def Let_def)
  have "\<lfloor>q\<rfloor> + 1 \<le> \<lceil>q\<rceil>" if "q - of_int \<lfloor>q\<rfloor> \<noteq> 0"
    using that by (metis ceiling_altdef diff_self order_refl)
  moreover have "\<lfloor>q\<rfloor> \<le> \<lceil>q\<rceil>" by (rule floor_le_ceiling)
  ultimately show "round_half_even q \<le> \<lceil>q\<rceil>"
    by (auto simp: round_half_even_def Let_def)
qed

lemma round_double_nat_big:
  assumes "2 ^ 53 \<le> n" "n < 10 ^ 308"
  shows "\<exists>k::int. round_double (of_nat n) = Finite (of_int k) \<and> 2 ^ 53 \<le> k"
proof -
  define q :: rat where "q = of_nat n"
  define e where "e = floor_log2 q"
  define p where "p = e - 52"
  define m where "m = round_half_even (q / pow2 p)"
  have q53: "2 ^ 53 \<le> q"
    using assms(1) unfolding q_def by (metis of_nat_le_iff of_nat_numeral of_nat_power)
  have q308: "q < 10 ^ 308"
    using assms(2) unfolding q_def by (metis of_nat_less_iff of_nat_numeral of_nat_power)
  from q53 have q0: "0 < q" by (rule less_le_trans [rotated]) simp
  note F = floor_log2_bounds [OF q0, folded e_def]
  have "pow2 53 < pow2 (e + 1)" using q53 F(2) by (simp add: pow2_def)
  then have e53: "53 \<le> e" by (simp add: pow2_less_iff)
  have "(10::rat) ^ 308 < 2 ^ 1024" by simp
  with q308 F(1) have "pow2 e < pow2 1024" by (simp add: pow2_def)
  then have e1023: "e \<le> 1023" by (simp add: pow2_less_iff)
  have p1: "1 \<le> p" and pmax: "max (e - 52) (- 1074) = p" using e53 by (simp_all add: p_def)
  have pp: "pow2 p = 2 ^ nat p" using p1 by (simp add: pow2_def)
  have ppos: "0 < pow2 p" by (rule pow2_pos)
  have lo: "of_int (2 ^ 52) \<le> q / pow2 p"
  proof -
    have "pow2 52 * pow2 p = pow2 e" by (simp add: pow2_add [symmetric] p_def)
    with F(1) ppos show ?thesis by (simp add: pos_le_divide_eq pow2_def)
  qed
  then have "2 ^ 52 \<le> \<lfloor>q / pow2 p\<rfloor>" by (simp only: le_floor_iff)
  with round_half_even_range(1) [of "q / pow2 p"] have m52: "2 ^ 52 \<le> m"
    unfolding m_def by linarith
  have hi: "of_int m * pow2 p < 2 ^ 1024"
  proof (cases "e = 1023")
    case True
    then have p: "p = 971" by (simp add: p_def)
    have "q / pow2 p \<le> of_int (2 ^ 53 - 1)"
      using q308 by (simp add: p pow2_def pos_divide_le_eq)
    then have "\<lceil>q / pow2 p\<rceil> \<le> 2 ^ 53 - 1" by (simp only: ceiling_le_iff)
    with round_half_even_range(2) [of "q / pow2 p"] have "m \<le> 2 ^ 53 - 1"
      unfolding m_def by linarith
    then have "(of_int m :: rat) \<le> of_int (2 ^ 53 - 1)" by (simp only: of_int_le_iff)
    then have "of_int m * pow2 p \<le> of_int (2 ^ 53 - 1) * pow2 p"
      using ppos by (simp add: mult_right_mono)
    also have "\<dots> < 2 ^ 1024" by (simp add: p pow2_def)
    finally show ?thesis .
  next
    case False
    with e1023 have e1022: "e + 1 \<le> 1023" by simp
    have h: "pow2 53 * pow2 p = pow2 (e + 1)"
      unfolding pow2_add [symmetric] p_def by (rule arg_cong [where f = pow2]) simp
    have h53: "(of_int (2 ^ 53) :: rat) = pow2 53" by (simp add: pow2_def)
    from h F(2) ppos have "q / pow2 p \<le> of_int (2 ^ 53)"
      by (simp add: pos_divide_le_eq pow2_def)
    then have "\<lceil>q / pow2 p\<rceil> \<le> 2 ^ 53" by (simp only: ceiling_le_iff)
    with round_half_even_range(2) [of "q / pow2 p"] have "m \<le> 2 ^ 53"
      unfolding m_def by linarith
    then have "(of_int m :: rat) \<le> of_int (2 ^ 53)" by (simp only: of_int_le_iff)
    then have "of_int m * pow2 p \<le> of_int (2 ^ 53) * pow2 p"
      using ppos by (simp add: mult_right_mono)
    also have "\<dots> = pow2 (e + 1)" unfolding h53 by (rule h)
    also have "\<dots> \<le> pow2 1023" using e1022 by (rule pow2_mono)
    also have "\<dots> < 2 ^ 1024" by (simp add: pow2_def)
    finally show ?thesis .
  qed
  have "round_double q = Finite (of_int m * pow2 p)"
    using q0 hi by (simp add: round_double_def Let_def e_def [symmetric] pmax m_def [symmetric])
  then have r: "round_double q = Finite (of_int (m * 2 ^ nat p))" by (simp add: pp)
  have "2 ^ 52 * 2 ^ 1 \<le> m * (2::int) ^ nat p"
    using m52 p1 by (intro mult_mono power_increasing) simp_all
  then have "2 ^ 53 \<le> m * 2 ^ nat p" by simp
  with r show ?thesis unfolding q_def by blast
qed

lemma infer_whole:
  assumes "CHR ''.'' \<notin> set text" "parseFloat text = Finite (of_int n)"
  shows "inferFromExpression (NumericLiteral text) =
     Str (if - 32768 \<le> n \<and> n \<le> 32767 then ''int16_t''
          else if - 2147483648 \<le> n \<and> n \<le> 2147483647 then ''int32_t'' else ''int64_t'')"
proof -
  have "(- 32768 \<le> (of_int n :: rat)) = (- 32768 \<le> n)" "((of_int n :: rat) \<le> 32767) = (n \<le> 32767)"
    "(- 2147483648 \<le> (of_int n :: rat)) = (- 2147483648 \<le> n)"
    "((of_int n :: rat) \<le> 2147483647) = (n \<le> 2147483647)"
    by linarith+
  with assms show ?thesis
    by (simp add: Let_def num_ge_def num_le_def not_less)
qed

lemma infer_digits:
  assumes "text \<noteq> []" "\<forall>c\<in>set text. isDigit c" "length text \<le> 308"
  shows "inferFromExpression (NumericLiteral text) =
     Str (if digits_value text \<le> 32767 then ''int16_t''
          else if digits_value text \<le> 2147483647 then ''int32_t'' else ''int64_t'')"
proof -
  define n where "n = digits_value text"
  have nodot: "CHR ''.'' \<notin> set text"
  proof
    assume "CHR ''.'' \<in> set text"
    with assms(2) have "isDigit CHR ''.''" by blast
    then show False by (simp add: isDigit_def)
  qed
  have pf: "parseFloat text = round_double (of_nat n)"
    unfolding n_def using assms(1,2) by (rule parseFloat_digits)
  have "n < 10 ^ length text" unfolding n_def using assms(2) by (rule digits_value_bound)
  also have "\<dots> \<le> 10 ^ 308" using assms(3) by (intro power_increasing) simp_all
  finally have n308: "n < 10 ^ 308" .
  show ?thesis
  proof (cases "n < 2 ^ 53")
    case True
    then have "parseFloat text = Finite (of_int (int n))"
      by (simp add: pf round_double_nat_small)
    from infer_whole [OF nodot this] show ?thesis
      by (simp add: n_def [symmetric])
  next
    case False
    then have "2 ^ 53 \<le> n" by simp
    from round_double_nat_big [OF this n308] obtain k :: int
      where k: "round_double (of_nat n) = Finite (of_int k)" "2 ^ 53 \<le> k" by blast
    from k(1) have "parseFloat text = Finite (of_int k)" by (simp add: pf)
    from infer_whole [OF nodot this] k(2) False show ?thesis
      by (simp add: n_def [symmetric])
  qed
qed

lemma parseFloat_1e_7: "parseFloat ''1e-7'' = Finite (944473296573929 / 2 ^ 73)"
proof -
  have "round_double (1 / 10 ^ 7) = Finite (of_int 7555786372591432 * pow2 (- 76))"
    by (rule round_double_eqI [where e = "- 24"]) (simp_all add: pow2_def)
  then show ?thesis
    by (simp add: parseFloat_def isWhiteSpace_def isDigit_def exponent_part_def Let_def
        digits_value_def digit_value_def pow2_def)
qed

lemma infer_1e_7: "inferFromExpression (NumericLiteral ''1e-7'') = Str ''double''"
proof -
  have "\<lfloor>944473296573929 / 2 ^ 73 :: rat\<rfloor> = 0"
    by (rule floor_unique) simp_all
  then have "\<not> Number_isInteger (Finite (944473296573929 / 2 ^ 73))"
    by simp
  then show ?thesis
    by (simp add: parseFloat_1e_7 Let_def)
qed

text \<open>
  Claim C1, as the code has it, on the text the node carries. A numeric literal whose
  text contains \<open>.\<close> maps to \<open>double\<close>. Otherwise, when the value \<open>parseFloat\<close>
  gives for the text is a whole number, the literal maps to the smallest integer type
  that holds that value, with inclusive bounds: \<open>int16_t\<close> within
  \<open>[-32768, 32767]\<close>, else \<open>int32_t\<close> within \<open>[-2147483648, 2147483647]\<close>, else
  \<open>int64_t\<close>; and when the value is not a whole number, as for the text \<open>1e-7\<close>,
  the literal maps to \<open>double\<close>. A text of at most 308 decimal digits maps to
  \<open>int16_t\<close> when the number its digits denote is at most \<open>32767\<close>, else to
  \<open>int32_t\<close> when it is at most \<open>2147483647\<close>, else to \<open>int64_t\<close>. The text
  \<open>42\<close> maps to \<open>int16_t\<close> and \<open>100000\<close> to \<open>int32_t\<close>. What a literal
  spelled with a fraction that is a whole number (\<open>42.0\<close>) maps to is not stated.
\<close>

theorem numeric_literal_inference:
  "(CHR ''.'' \<in> set text \<longrightarrow> inferFromExpression (NumericLiteral text) = Str ''double'')
   \<and> (CHR ''.'' \<notin> set text \<longrightarrow>
        (\<forall>n::int. parseFloat text = Finite (of_int n) \<longrightarrow>
           inferFromExpression (NumericLiteral text) =
             Str (if - 32768 \<le> n \<and> n \<le> 32767 then ''int16_t''
                  else if - 2147483648 \<le> n \<and> n \<le> 2147483647 then ''int32_t''
                  else ''int64_t''))
        \<and> ((\<forall>n::int. parseFloat text \<noteq> Finite (of_int n)) \<longrightarrow>
             inferFromExpression (NumericLiteral text) = Str ''double''))
   \<and> (text \<noteq> [] \<and> (\<forall>c\<in>set text. isDigit c) \<and> length text \<le> 308 \<longrightarrow>
        inferFromExpression (NumericLiteral text) =
          Str (if digits_value text \<le> 32767 then ''int16_t''
               else if digits_value text \<le> 2147483647 then ''int32_t'' else ''int64_t''))
   \<and> inferFromExpression (NumericLiteral ''42'') = Str ''int16_t''
   \<and> inferFromExpression (NumericLiteral ''100000'') = Str ''int32_t''
   \<and> inferFromExpression (NumericLiteral ''1e-7'') = Str ''double''"
proof -
  have a: "CHR ''.'' \<in> set text \<Longrightarrow> inferFromExpression (NumericLiteral text) = Str ''double''"
    by (simp add: Let_def)
  have b: "inferFromExpression (NumericLiteral text) = Str ''double''"
    if "CHR ''.'' \<notin> set text" "\<forall>n::int. parseFloat text \<noteq> Finite (of_int n)"
    using that by (simp add: Let_def Number_isInteger_iff)
  have e1: "inferFromExpression (NumericLiteral ''42'') = Str ''int16_t''"
    by (subst infer_digits) (simp_all add: isDigit_def digits_value_def digit_value_def)
  note e2 = infer_1e_7
  have e3: "inferFromExpression (NumericLiteral ''100000'') = Str ''int32_t''"
    by (subst infer_digits) (simp_all add: isDigit_def digits_value_def digit_value_def)
  from a b infer_whole [of "text"] infer_digits [of "text"] e1 e2 e3 show ?thesis
    by blast
qed

theorem numeric_literal_inference_witness:
  "inferFromExpression (NumericLiteral ''32767'') = Str ''int16_t''
   \<and> inferFromExpression (NumericLiteral ''32768'') = Str ''int32_t''
   \<and> inferFromExpression (NumericLiteral ''2147483647'') = Str ''int32_t''
   \<and> inferFromExpression (NumericLiteral ''2147483648'') = Str ''int64_t''
   \<and> inferFromExpression (NumericLiteral ''4.5'') = Str ''double''"
  using numeric_literal_inference [of "''32767''"] numeric_literal_inference [of "''32768''"]
    numeric_literal_inference [of "''2147483647''"] numeric_literal_inference [of "''2147483648''"]
    numeric_literal_inference [of "''4.5''"]
  by (simp add: isDigit_def digits_value_def digit_value_def)

theorem numeric_literal_exponent_counterexample:
  "CHR ''.'' \<notin> set ''1e-7''
   \<and> parseFloat ''1e-7'' = Finite (944473296573929 / 2 ^ 73)
   \<and> num_ge (parseFloat ''1e-7'') (Finite (- 32768))
   \<and> num_le (parseFloat ''1e-7'') (Finite 32767)
   \<and> inferFromExpression (NumericLiteral ''1e-7'') = Str ''double''
   \<and> inferFromExpression (NumericLiteral ''1e-7'') \<noteq> Str ''int16_t''"
  by (simp add: infer_1e_7 parseFloat_1e_7 num_ge_def num_le_def del: inferFromExpression.simps)

end
